theory Spec2Isabelle
  imports Main
begin

section \<open>Data model of the user resolver\<close>

text \<open>
  The \<open>User\<close> entity as the resolver touches it. Its primary key \<open>id\<close> (written \<open>id'\<close>,
  since \<open>id\<close> is the identity function of HOL) is a JavaScript number that stays
  \<open>undefined\<close> (here \<open>None\<close>) until the entity manager has flushed the row.
\<close>

record User =
  id' :: "int option"
  username :: string
  email :: string
  password :: string

record FieldError =
  field :: string
  message :: string

text \<open>\<open>UserResponse\<close>: both members are optional (\<open>errors?\<close>, \<open>user?\<close>).\<close>

record UserResponse =
  errors :: "FieldError list option"
  user :: "User option"

text \<open>
  A thrown JavaScript error value. The resolver reads only its \<open>code\<close> member, which the
  database driver fills with an SQLSTATE string.
\<close>

record JsError =
  code :: "string option"
  detail :: string

text \<open>The filter object handed to \<open>em.findOne(User, ...)\<close>.\<close>

datatype Where = ById int | ByEmail string | ByUsername string

text \<open>\<open>req.session\<close>: it holds at most one \<open>userId\<close>.\<close>

record Session =
  userId :: "int option"

text \<open>Calls to collaborators, in the order the resolver issues them.\<close>

datatype Call =
    Argon2Hash string
  | Argon2Verify string string
  | EmCreate User
  | EmPersistAndFlush User
  | EmFindOne Where
  | ConsoleLog JsError
  | SessionDestroy
  | ClearCookie string
  | V4
  | RedisSet string "int option" string int
  | SendEmail string string

text \<open>
  What is reachable from the request context \<open>{ req, res, em, redis }\<close> and can change
  during a request: the session, the cookies the response clears, the key-value store
  (each key with the value, the expiry mode and the expiry argument of its last
  \<open>set\<close>), the rejections of promises that nobody awaits, and the trace of calls.
\<close>

record MyContext =
  session :: Session
  cleared :: "string list"
  redis :: "string \<rightharpoonup> (int option \<times> string \<times> int)"
  unhandled :: "JsError list"
  calls :: "Call list"

text \<open>
  The collaborators of the resolver are not part of it: the validator
  \<open>validateRegister\<close>, \<open>argon2\<close>, the entity manager, \<open>uuid\<close>, the session store, the
  key-value store, the mailer and two of the imported constants. Each is a parameter:
  what it answers during the request. An awaited promise either resolves (\<open>Inr\<close>) or
  rejects (\<open>Inl\<close>); a promise that is not awaited either is fulfilled (\<open>None\<close>) or
  rejects with an error (\<open>Some\<close>): \<open>redis_reply\<close> is that of \<open>redis.set\<close> for its four
  arguments and \<open>sendEmail\<close> that of the mailer.
  \<open>validateRegister\<close> answers \<open>None\<close> for a falsy result (\<open>null\<close>) and \<open>Some errs\<close> for an
  array, which is truthy even when empty. \<open>em_persistAndFlush\<close> resolves to the primary
  key the database generated. \<open>session_destroy\<close> answers what the callback receives and
  the session that is left.
\<close>

record Env =
  validateRegister :: "string \<Rightarrow> string \<Rightarrow> string \<Rightarrow> FieldError list option"
  argon2_hash :: "string \<Rightarrow> JsError + string"
  argon2_verify :: "string \<Rightarrow> string \<Rightarrow> JsError + bool"
  em_findOne :: "Where \<Rightarrow> JsError + User option"
  em_persistAndFlush :: "User \<Rightarrow> JsError + int"
  v4 :: string
  session_destroy :: "Session \<Rightarrow> JsError option \<times> Session"
  redis_reply :: "string \<Rightarrow> int option \<Rightarrow> string \<Rightarrow> int \<Rightarrow> JsError option"
  sendEmail :: "string \<Rightarrow> string \<Rightarrow> JsError option"
  COOKIE_NAME :: string
  FORGET_PASSWORD_PREFIX :: string

text \<open>
  Modelled from the spec: the constant \<open>THREE_DAYS\<close> of \<open>../constants\<close>, which is not under
  \<open>src/\<close>. The spec fixes the time-to-live of a reset token at three days, and the expiry
  mode \<open>ex\<close> that line 163 passes with it counts seconds.
\<close>

definition THREE_DAYS :: int where
  "THREE_DAYS = 3 * 24 * 60 * 60"

section \<open>Primitive effects\<close>

definition call :: "Call \<Rightarrow> MyContext \<Rightarrow> MyContext" where
  "call c w = w\<lparr>calls := calls w @ [c]\<rparr>"

text \<open>\<open>req.session.userId = v\<close>\<close>

definition set_userId :: "int option \<Rightarrow> MyContext \<Rightarrow> MyContext" where
  "set_userId v w = w\<lparr>session := (session w)\<lparr>userId := v\<rparr>\<rparr>"

text \<open>\<open>res.clearCookie(name)\<close>\<close>

definition clearCookie :: "string \<Rightarrow> MyContext \<Rightarrow> MyContext" where
  "clearCookie name w = call (ClearCookie name) (w\<lparr>cleared := cleared w @ [name]\<rparr>)"

text \<open>
  \<open>redis.set(key, value, mode, ttl)\<close>, with the reply \<open>r\<close> of the store: when the store
  accepts the command the entry of \<open>key\<close> is overwritten, when it rejects it the store is
  left as it was. The store is the one seen once the command has settled.
\<close>

definition redis_set ::
  "JsError option \<Rightarrow> string \<Rightarrow> int option \<Rightarrow> string \<Rightarrow> int \<Rightarrow> MyContext \<Rightarrow> MyContext" where
  "redis_set r key v mode ttl w =
     (let w1 = call (RedisSet key v mode ttl) w
      in case r of
           None \<Rightarrow> w1\<lparr>redis := (redis w1)(key \<mapsto> (v, mode, ttl))\<rparr>
         | Some e \<Rightarrow> w1)"

text \<open>
  A promise that is started and not awaited: its rejection reaches no caller and is
  left unhandled.
\<close>

definition floating :: "JsError option \<Rightarrow> MyContext \<Rightarrow> MyContext" where
  "floating r w = (case r of None \<Rightarrow> w | Some e \<Rightarrow> w\<lparr>unhandled := unhandled w @ [e]\<rparr>)"

text \<open>\<open>resolve(v)\<close> on a promise: only the first call settles it.\<close>

definition resolve :: "bool \<Rightarrow> bool option \<Rightarrow> bool option" where
  "resolve v p = (case p of None \<Rightarrow> Some v | Some r \<Rightarrow> Some r)"

section \<open>The resolver\<close>

subsection \<open>me\<close>

text \<open>
  \<open>!req.session.userId\<close> holds for a missing \<open>userId\<close> and for the number \<open>0\<close>.
\<close>

definition me :: "Env \<Rightarrow> MyContext \<Rightarrow> (JsError + User option) \<times> MyContext" where
  "me env w =
     (case userId (session w) of
        None \<Rightarrow> (Inr None, w)
      | Some i \<Rightarrow>
          if i = 0 then (Inr None, w)
          else (let w1 = call (EmFindOne (ById i)) w
                in case em_findOne env (ById i) of
                     Inl e \<Rightarrow> (Inl e, w1)
                   | Inr found \<Rightarrow> (Inr found, w1)))"

subsection \<open>register\<close>

text \<open>Lines 85 to 88: the session takes \<open>user.id\<close> and the envelope carries the user.\<close>

definition establish :: "User \<Rightarrow> MyContext \<Rightarrow> (JsError + UserResponse) \<times> MyContext" where
  "establish u w = (Inr \<lparr>errors = None, user = Some u\<rparr>, set_userId (id' u) w)"

definition register ::
  "Env \<Rightarrow> string \<Rightarrow> string \<Rightarrow> string \<Rightarrow> MyContext \<Rightarrow> (JsError + UserResponse) \<times> MyContext" where
  "register env username_in password_in email_in w =
     (case validateRegister env username_in password_in email_in of
        Some errs \<Rightarrow> (Inr \<lparr>errors = Some errs, user = None\<rparr>, w)
      | None \<Rightarrow>
          (case argon2_hash env password_in of
             Inl e \<Rightarrow> (Inl e, call (Argon2Hash password_in) w)
           | Inr hashedPassword \<Rightarrow>
               (let u = \<lparr>id' = None, username = username_in, email = email_in,
                         password = hashedPassword\<rparr>;
                    w1 = call (EmPersistAndFlush u)
                           (call (EmCreate u) (call (Argon2Hash password_in) w))
                in case em_persistAndFlush env u of
                     Inl error \<Rightarrow>
                       (let w2 = call (ConsoleLog error) w1
                        in if code error = Some ''23505''
                           then (Inr \<lparr>errors = Some [\<lparr>field = ''username'',
                                                       message = ''username already taken''\<rparr>],
                                      user = None\<rparr>, w2)
                           else establish u w2)
                   | Inr new_id \<Rightarrow> establish (u\<lparr>id' := Some new_id\<rparr>) w1)))"

subsection \<open>login\<close>

definition login ::
  "Env \<Rightarrow> string \<Rightarrow> string \<Rightarrow> MyContext \<Rightarrow> (JsError + UserResponse) \<times> MyContext" where
  "login env usernameOrEmail password_in w =
     (let q = (if CHR ''@'' \<in> set usernameOrEmail
               then ByEmail usernameOrEmail else ByUsername usernameOrEmail);
          w1 = call (EmFindOne q) w
      in case em_findOne env q of
           Inl e \<Rightarrow> (Inl e, w1)
         | Inr None \<Rightarrow>
             (Inr \<lparr>errors = Some [\<lparr>field = ''usernameOrEmail'',
                                    message = [CHR 0x22] @ usernameOrEmail @ [CHR 0x22]
                                              @ '' does not exist''\<rparr>],
                   user = None\<rparr>, w1)
         | Inr (Some u) \<Rightarrow>
             (let w2 = call (Argon2Verify (password u) password_in) w1
              in case argon2_verify env (password u) password_in of
                   Inl e \<Rightarrow> (Inl e, w2)
                 | Inr validPassword \<Rightarrow>
                     if \<not> validPassword
                     then (Inr \<lparr>errors = Some [\<lparr>field = ''password'',
                                                 message = ''incorrect password''\<rparr>],
                                user = None\<rparr>, w2)
                     else (Inr \<lparr>errors = None, user = Some u\<rparr>,
                           set_userId (id' u) w2)))"

subsection \<open>logout\<close>

text \<open>
  The result is the state of the promise that \<open>logout\<close> returns: \<open>Some b\<close> once it is
  resolved with \<open>b\<close>. After \<open>resolve(false)\<close> the callback runs on into \<open>resolve(true)\<close>,
  which no longer changes the promise.
\<close>

definition logout :: "Env \<Rightarrow> MyContext \<Rightarrow> bool option \<times> MyContext" where
  "logout env w =
     (let (error, s) = session_destroy env (session w);
          w1 = (call SessionDestroy w)\<lparr>session := s\<rparr>;
          w2 = clearCookie (COOKIE_NAME env) w1
      in case error of
           Some e \<Rightarrow> (resolve True (resolve False None), call (ConsoleLog e) w2)
         | None \<Rightarrow> (resolve True None, w2))"

subsection \<open>forgotPassword\<close>

text \<open>
  Neither \<open>redis.set\<close> (line 163) nor \<open>sendEmail\<close> (line 165) is awaited: a rejection of
  either is left unhandled and \<open>forgotPassword\<close> goes on. \<open>htmlLink\<close> is the markup of the
  mail, around the token.
\<close>

definition htmlLink :: "string \<Rightarrow> string" where
  \<open>htmlLink token =
     ''<div><a href="http://localhost:3000/change-password/'' @ token
     @ ''">reset password</a></div>''\<close>

definition forgotPassword ::
  "Env \<Rightarrow> string \<Rightarrow> MyContext \<Rightarrow> (JsError + bool) \<times> MyContext" where
  "forgotPassword env email_in w =
     (let w1 = call (EmFindOne (ByEmail email_in)) w
      in case em_findOne env (ByEmail email_in) of
           Inl e \<Rightarrow> (Inl e, w1)
         | Inr None \<Rightarrow> (Inr True, w1)
         | Inr (Some u) \<Rightarrow>
             (let token = v4 env;
                  w2 = call V4 w1;
                  key = FORGET_PASSWORD_PREFIX env @ token;
                  r = redis_reply env key (id' u) ''ex'' THREE_DAYS;
                  w3 = floating r (redis_set r key (id' u) ''ex'' THREE_DAYS w2);
                  w4 = floating (sendEmail env email_in (htmlLink token))
                         (call (SendEmail email_in (htmlLink token)) w3)
              in (Inr True, w4)))"

section \<open>A sample environment\<close>

text \<open>
  Concrete collaborators on which the operations can be run: one stored user, a
  validator that only looks for the \<open>@\<close> of the address, a store that reports a
  unique violation for \<open>alice\<close> and a lost connection for \<open>carol\<close>. The variants
  change one collaborator each: a session store that fails to destroy, a database whose
  only row has the primary key \<open>0\<close>, a key-value store that rejects every command, a
  mailer that rejects every mail.
\<close>

definition alice :: User where
  "alice = \<lparr>id' = Some 1, username = ''alice'', email = ''alice@example.com'',
            password = ''$argon2id$correct horse''\<rparr>"

definition sample_env :: Env where
  "sample_env =
     \<lparr>validateRegister = (\<lambda>u p e. if CHR ''@'' \<in> set e then None
                           else Some [\<lparr>field = ''email'', message = ''invalid email''\<rparr>]),
      argon2_hash = (\<lambda>p. Inr (''$argon2id$'' @ p)),
      argon2_verify = (\<lambda>d p. Inr (d = ''$argon2id$'' @ p)),
      em_findOne = (\<lambda>q. Inr (if q = ById 1 \<or> q = ByEmail ''alice@example.com''
                                 \<or> q = ByUsername ''alice''
                              then Some alice else None)),
      em_persistAndFlush = (\<lambda>u. if username u = ''alice''
                                 then Inl \<lparr>code = Some ''23505'', detail = ''unique violation''\<rparr>
                                 else if username u = ''carol''
                                 then Inl \<lparr>code = Some ''08006'', detail = ''connection failure''\<rparr>
                                 else Inr 2),
      v4 = ''1b9d6bcd-bbfd-4b2d-9b5d-ab8dfbbd4bed'',
      session_destroy = (\<lambda>s. (None, \<lparr>userId = None\<rparr>)),
      redis_reply = (\<lambda>key v mode ttl. None),
      sendEmail = (\<lambda>rcpt body. None),
      COOKIE_NAME = ''qid'',
      FORGET_PASSWORD_PREFIX = ''forget-password:''\<rparr>"

definition fresh :: "int option \<Rightarrow> MyContext" where
  "fresh uid = \<lparr>session = \<lparr>userId = uid\<rparr>, cleared = [], redis = Map.empty,
                unhandled = [], calls = []\<rparr>"

definition failing_destroy_env :: Env where
  "failing_destroy_env =
     sample_env\<lparr>session_destroy :=
                   (\<lambda>s. (Some \<lparr>code = None, detail = ''store unreachable''\<rparr>, s))\<rparr>"





section \<open>Properties of the resolver\<close>

lemmas effect_defs = call_def set_userId_def clearCookie_def redis_set_def floating_def
  resolve_def establish_def Let_def

subsection \<open>register\<close>

text \<open>
  Whatever \<open>persistAndFlush\<close> throws, the \<open>catch\<close> block returns only for the code
  \<open>23505\<close>; every other error is logged and control reaches lines 85 to 88 with the
  unsaved user.
\<close>

lemma register_other_failure:
  assumes "validateRegister env un pw em = None"
    and "argon2_hash env pw = Inr h"
    and "em_persistAndFlush env \<lparr>id' = None, username = un, email = em, password = h\<rparr>
           = Inl err"
    and "code err \<noteq> Some ''23505''"
  shows "fst (register env un pw em w)
           = Inr \<lparr>errors = None,
                  user = Some \<lparr>id' = None, username = un, email = em, password = h\<rparr>\<rparr>
         \<and> userId (session (snd (register env un pw em w))) = None"
  using assms by (simp add: register_def effect_defs)

text \<open>
  C1. The claim: when the input is valid and the persist step fails with an error that
  is not a duplicate-key error, \<open>register\<close> returns an error result and leaves the
  session alone. The code does not: for \<open>carol\<close>, whose insert fails with SQLSTATE
  \<open>08006\<close>, in a session that holds \<open>userId = 1\<close>, it returns the success envelope with
  the unsaved user (no \<open>id\<close>) and overwrites the session's \<open>userId\<close> with that missing
  \<open>id\<close>.
\<close>

theorem register_swallows_persist_failure:
  "fst (register sample_env ''carol'' ''hunter22'' ''carol@example.com'' (fresh (Some 1)))
     = Inr \<lparr>errors = None,
            user = Some \<lparr>id' = None, username = ''carol'', email = ''carol@example.com'',
                         password = ''$argon2id$hunter22''\<rparr>\<rparr>
   \<and> userId (session (fresh (Some 1))) = Some 1
   \<and> userId (session (snd (register sample_env ''carol'' ''hunter22'' ''carol@example.com''
                              (fresh (Some 1))))) = None"
  by (simp add: register_def effect_defs sample_env_def fresh_def)

text \<open>
  C2. When the input passes validation and the persist step fails with the
  duplicate-key error (code \<open>23505\<close>), \<open>register\<close> returns exactly one field error,
  \<open>username\<close> / \<open>username already taken\<close>, returns no user and leaves the session as it
  was.
\<close>

theorem register_duplicate_key:
  assumes "validateRegister env un pw em = None"
    and "argon2_hash env pw = Inr h"
    and "em_persistAndFlush env \<lparr>id' = None, username = un, email = em, password = h\<rparr>
           = Inl err"
    and "code err = Some ''23505''"
  shows "fst (register env un pw em w)
           = Inr \<lparr>errors = Some [\<lparr>field = ''username'', message = ''username already taken''\<rparr>],
                  user = None\<rparr>
         \<and> session (snd (register env un pw em w)) = session w"
  using assms by (simp add: register_def effect_defs)

theorem register_duplicate_key_witness:
  "fst (register sample_env ''alice'' ''hunter22'' ''alice2@example.com'' (fresh None))
     = Inr \<lparr>errors = Some [\<lparr>field = ''username'', message = ''username already taken''\<rparr>],
            user = None\<rparr>
   \<and> session (snd (register sample_env ''alice'' ''hunter22'' ''alice2@example.com'' (fresh None)))
       = session (fresh None)"
  by (rule register_duplicate_key
        [where h = "''$argon2id$hunter22''"
           and err = "\<lparr>code = Some ''23505'', detail = ''unique violation''\<rparr>"])
     (simp_all add: sample_env_def)

text \<open>
  C3. When the input passes validation and the persist step succeeds, \<open>register\<close>
  returns the success envelope; the user's \<open>password\<close> member is the digest that
  \<open>argon2.hash\<close> gave for the plaintext, which is not the plaintext as a digest differs
  from its input; and the session's \<open>userId\<close> is the \<open>id\<close> of the new user.
\<close>

theorem register_success:
  assumes "validateRegister env un pw em = None"
    and "argon2_hash env pw = Inr h"
    and "h \<noteq> pw"
    and "em_persistAndFlush env \<lparr>id' = None, username = un, email = em, password = h\<rparr>
           = Inr new_id"
  shows "\<exists>u. fst (register env un pw em w) = Inr \<lparr>errors = None, user = Some u\<rparr>
             \<and> username u = un \<and> email u = em
             \<and> password u = h \<and> password u \<noteq> pw
             \<and> id' u = Some new_id
             \<and> userId (session (snd (register env un pw em w))) = id' u"
  using assms by (simp add: register_def effect_defs)

theorem register_success_witness:
  "\<exists>u. fst (register sample_env ''bob'' ''hunter22'' ''bob@example.com'' (fresh None))
         = Inr \<lparr>errors = None, user = Some u\<rparr>
       \<and> username u = ''bob'' \<and> email u = ''bob@example.com''
       \<and> password u = ''$argon2id$hunter22'' \<and> password u \<noteq> ''hunter22''
       \<and> id' u = Some 2
       \<and> userId (session (snd (register sample_env ''bob'' ''hunter22'' ''bob@example.com''
                                  (fresh None)))) = id' u"
  by (rule register_success) (simp_all add: sample_env_def)

text \<open>
  C4. When the validator reports errors for the input, \<open>register\<close> returns exactly that
  non-empty list and nothing else happens: the context is the one it started with, so
  its trace holds no hash, no \<open>create\<close>, no \<open>persistAndFlush\<close>, and the session is not
  written.
\<close>

theorem register_invalid:
  assumes "validateRegister env un pw em = Some errs"
    and "errs \<noteq> []"
  shows "register env un pw em w = (Inr \<lparr>errors = Some errs, user = None\<rparr>, w)
         \<and> 0 < length errs"
  using assms by (simp add: register_def)

theorem register_invalid_witness:
  "register sample_env ''dave'' ''hunter22'' ''dave.example.com'' (fresh None)
     = (Inr \<lparr>errors = Some [\<lparr>field = ''email'', message = ''invalid email''\<rparr>], user = None\<rparr>,
        fresh None)"
  using register_invalid
        [where env = sample_env and un = "''dave''" and pw = "''hunter22''"
           and em = "''dave.example.com''"
           and errs = "[\<lparr>field = ''email'', message = ''invalid email''\<rparr>]"
           and w = "fresh None"]
  by (simp add: sample_env_def)

subsection \<open>login\<close>

text \<open>
  C5. In every \<open>login\<close> the first call is the lookup, by \<open>email\<close> when the identifier
  contains \<open>@\<close> and by \<open>username\<close> otherwise; a password verification occurs only after
  it and only against the digest of a record the lookup found; and when the lookup
  finds no record, \<open>login\<close> returns the single field error \<open>usernameOrEmail\<close> with the
  identifier in double quotes followed by \<open>does not exist\<close>, having made no other call.
\<close>

theorem login_lookup_first:
  fixes usernameOrEmail :: string
  defines "q \<equiv> (if CHR ''@'' \<in> set usernameOrEmail
                 then ByEmail usernameOrEmail else ByUsername usernameOrEmail)"
  shows "(\<exists>rest. calls (snd (login env usernameOrEmail pw w)) = calls w @ EmFindOne q # rest
            \<and> (\<forall>d p. Argon2Verify d p \<in> set rest
                  \<longrightarrow> (\<exists>u. em_findOne env q = Inr (Some u) \<and> d = password u)))
         \<and> (em_findOne env q = Inr None \<longrightarrow>
              login env usernameOrEmail pw w
                = (Inr \<lparr>errors = Some [\<lparr>field = ''usernameOrEmail'',
                                        message = [CHR 0x22] @ usernameOrEmail @ [CHR 0x22]
                                                  @ '' does not exist''\<rparr>],
                        user = None\<rparr>,
                   w\<lparr>calls := calls w @ [EmFindOne q]\<rparr>))"
  unfolding q_def
  by (auto simp add: login_def effect_defs split: sum.splits option.splits)

theorem login_lookup_first_witness:
  "login sample_env ''bob'' ''hunter22'' (fresh None)
     = (Inr \<lparr>errors = Some [\<lparr>field = ''usernameOrEmail'',
                             message = [CHR 0x22] @ ''bob'' @ [CHR 0x22] @ '' does not exist''\<rparr>],
             user = None\<rparr>,
        (fresh None)\<lparr>calls := calls (fresh None) @ [EmFindOne (ByUsername ''bob'')]\<rparr>)
   \<and> login sample_env ''bob@example.com'' ''hunter22'' (fresh None)
     = (Inr \<lparr>errors = Some [\<lparr>field = ''usernameOrEmail'',
                             message = [CHR 0x22] @ ''bob@example.com'' @ [CHR 0x22]
                                       @ '' does not exist''\<rparr>],
             user = None\<rparr>,
        (fresh None)\<lparr>calls := calls (fresh None) @ [EmFindOne (ByEmail ''bob@example.com'')]\<rparr>)
   \<and> (\<exists>rest. calls (snd (login sample_env ''alice'' ''hunter22'' (fresh None)))
                = calls (fresh None) @ EmFindOne (ByUsername ''alice'') # rest
              \<and> Argon2Verify (password alice) ''hunter22'' \<in> set rest)"
  using login_lookup_first [of sample_env "''bob''" "''hunter22''" "fresh None"]
        login_lookup_first [of sample_env "''bob@example.com''" "''hunter22''" "fresh None"]
        login_lookup_first [of sample_env "''alice''" "''hunter22''" "fresh None"]
  by (simp add: sample_env_def login_def effect_defs fresh_def alice_def)

text \<open>
  C6. When the lookup finds a record and \<open>argon2.verify\<close> answers \<open>false\<close> for its
  digest and the given password, \<open>login\<close> returns the single field error \<open>password\<close> /
  \<open>incorrect password\<close> and the session is as it was.
\<close>

theorem login_wrong_password:
  assumes "em_findOne env (if CHR ''@'' \<in> set usernameOrEmail
                           then ByEmail usernameOrEmail else ByUsername usernameOrEmail)
             = Inr (Some u)"
    and "argon2_verify env (password u) pw = Inr False"
  shows "fst (login env usernameOrEmail pw w)
           = Inr \<lparr>errors = Some [\<lparr>field = ''password'', message = ''incorrect password''\<rparr>],
                  user = None\<rparr>
         \<and> session (snd (login env usernameOrEmail pw w)) = session w"
  using assms by (simp add: login_def effect_defs)

theorem login_wrong_password_witness:
  "fst (login sample_env ''alice'' ''hunter22'' (fresh (Some 7)))
     = Inr \<lparr>errors = Some [\<lparr>field = ''password'', message = ''incorrect password''\<rparr>],
            user = None\<rparr>
   \<and> session (snd (login sample_env ''alice'' ''hunter22'' (fresh (Some 7))))
       = session (fresh (Some 7))"
  by (rule login_wrong_password [where u = alice]) (simp_all add: sample_env_def alice_def)

subsection \<open>logout\<close>

text \<open>
  C7. Every \<open>logout\<close> clears the cookie named \<open>COOKIE_NAME\<close>, whether or not the destroy
  callback receives an error, and its promise is resolved with \<open>true\<close> exactly when the
  callback received none, with \<open>false\<close> when it received one.
\<close>

theorem logout_clears_cookie:
  "cleared (snd (logout env w)) = cleared w @ [COOKIE_NAME env]
   \<and> ClearCookie (COOKIE_NAME env) \<in> set (calls (snd (logout env w)))
   \<and> fst (logout env w) = Some (fst (session_destroy env (session w)) = None)"
  by (cases "session_destroy env (session w)")
     (simp add: logout_def effect_defs split: option.splits)

theorem logout_clears_cookie_witness:
  "fst (logout sample_env (fresh (Some 1))) = Some True
   \<and> cleared (snd (logout sample_env (fresh (Some 1)))) = [''qid'']
   \<and> fst (logout failing_destroy_env (fresh (Some 1))) = Some False
   \<and> cleared (snd (logout failing_destroy_env (fresh (Some 1)))) = [''qid'']"
  using logout_clears_cookie [of sample_env "fresh (Some 1)"]
        logout_clears_cookie [of failing_destroy_env "fresh (Some 1)"]
  by (simp add: sample_env_def failing_destroy_env_def fresh_def)

subsection \<open>forgotPassword\<close>

text \<open>
  \<open>forgotPassword\<close> returns \<open>true\<close> whenever the lookup resolves, whatever the store and
  the mailer answer.
\<close>

lemma forgotPassword_true:
  "em_findOne env (ByEmail e) = Inr found \<Longrightarrow> fst (forgotPassword env e w) = Inr True"
  by (simp add: forgotPassword_def effect_defs split: option.splits)




text \<open>
  C10. When the lookup finds a record, the key of the \<open>set\<close> command is
  \<open>FORGET_PASSWORD_PREFIX\<close> followed by the token: that key holds the user's \<open>id\<close> once the
  store has accepted the command, and no other key is touched. The link in the mail
  carries the token alone. So, for a non-empty prefix and a store that held nothing
  under the bare token, a lookup by the bare token finds nothing after the call.
\<close>

theorem forgotPassword_key_prefixed:
  assumes "em_findOne env (ByEmail e) = Inr (Some u)"
    and "FORGET_PASSWORD_PREFIX env \<noteq> []"
    and "redis w (v4 env) = None"
  shows \<open>RedisSet (FORGET_PASSWORD_PREFIX env @ v4 env) (id' u) ''ex'' THREE_DAYS
             \<in> set (calls (snd (forgotPassword env e w)))
         \<and> redis (snd (forgotPassword env e w)) (FORGET_PASSWORD_PREFIX env @ v4 env)
             = (case redis_reply env (FORGET_PASSWORD_PREFIX env @ v4 env) (id' u) ''ex''
                       THREE_DAYS of
                  None \<Rightarrow> Some (id' u, ''ex'', THREE_DAYS)
                | Some x \<Rightarrow> redis w (FORGET_PASSWORD_PREFIX env @ v4 env))
         \<and> dom (redis (snd (forgotPassword env e w)))
             = (case redis_reply env (FORGET_PASSWORD_PREFIX env @ v4 env) (id' u) ''ex''
                       THREE_DAYS of
                  None \<Rightarrow> insert (FORGET_PASSWORD_PREFIX env @ v4 env) (dom (redis w))
                | Some x \<Rightarrow> dom (redis w))
         \<and> SendEmail e (''<div><a href="http://localhost:3000/change-password/'' @ v4 env
                         @ ''">reset password</a></div>'')
             \<in> set (calls (snd (forgotPassword env e w)))
         \<and> redis (snd (forgotPassword env e w)) (v4 env) = None\<close>
  using assms
  by (simp add: forgotPassword_def effect_defs htmlLink_def split: option.splits)

theorem forgotPassword_key_prefixed_witness:
  \<open>redis (snd (forgotPassword sample_env ''alice@example.com'' (fresh None)))
       ''forget-password:1b9d6bcd-bbfd-4b2d-9b5d-ab8dfbbd4bed''
     = Some (Some 1, ''ex'', 259200)
   \<and> dom (redis (snd (forgotPassword sample_env ''alice@example.com'' (fresh None))))
     = {''forget-password:1b9d6bcd-bbfd-4b2d-9b5d-ab8dfbbd4bed''}
   \<and> SendEmail ''alice@example.com''
        ''<div><a href="http://localhost:3000/change-password/1b9d6bcd-bbfd-4b2d-9b5d-ab8dfbbd4bed">reset password</a></div>''
       \<in> set (calls (snd (forgotPassword sample_env ''alice@example.com'' (fresh None))))
   \<and> redis (snd (forgotPassword sample_env ''alice@example.com'' (fresh None)))
       ''1b9d6bcd-bbfd-4b2d-9b5d-ab8dfbbd4bed'' = None\<close>
  using forgotPassword_key_prefixed
          [of sample_env "''alice@example.com''" alice "fresh None"]
  by (simp add: sample_env_def fresh_def alice_def THREE_DAYS_def)

subsection \<open>me\<close>

text \<open>
  For a non-zero \<open>userId\<close> the answer of \<open>me\<close> is the answer of the lookup by that id:
  \<open>null\<close> when no record has it, the record otherwise. For the \<open>userId\<close> \<open>0\<close> the guard on
  line 43 returns \<open>null\<close> before any lookup.
\<close>

lemma me_nonzero_userId:
  "userId (session w) = Some i \<Longrightarrow> i \<noteq> 0 \<Longrightarrow> em_findOne env (ById i) = Inr found
   \<Longrightarrow> me env w = (Inr found, w\<lparr>calls := calls w @ [EmFindOne (ById i)]\<rparr>)"
  by (simp add: me_def effect_defs)

lemma me_no_userId:
  "userId (session w) = None \<Longrightarrow> me env w = (Inr None, w)"
  by (simp add: me_def)

lemma me_userId_zero:
  "userId (session w) = Some 0 \<Longrightarrow> me env w = (Inr None, w)"
  by (simp add: me_def)


end
